theory Spec2Isabelle
  imports Main "HOL-Library.AList"
begin

section \<open>Python values\<close>

text \<open>
  A Python \<open>str\<close> is a sequence of Unicode code points, and \<open>len\<close> and slicing count
  code points. A string is therefore a list of code points; \<open>ascii\<close> turns an ASCII
  literal into one.
\<close>

type_synonym pystr = "nat list"

definition ascii :: "string \<Rightarrow> pystr" where
  "ascii s = map of_char s"

text \<open>
  A float is seen by the program only through its truth value: \<open>Finite m e\<close> stands for
  \<open>m * 2 ^ e\<close>, which is zero exactly when \<open>m = 0\<close>.
\<close>

datatype pyfloat = Finite int int | Infinity bool | NaN

text \<open>
  The dynamically typed values the handlers see: the JSON values of a decoded reply or
  request body, and the store's identifier type \<open>ObjectId\<close> (a 12-byte value, here the
  number it encodes). A \<open>dict\<close> keeps insertion order, so it is an association list.
\<close>

datatype pyval =
    PNone
  | PBool bool
  | PInt int
  | PFloat pyfloat
  | PStr pystr
  | PList "pyval list"
  | PDict "(pystr \<times> pyval) list"
  | PObjectId nat

type_synonym pydict = "(pystr \<times> pyval) list"

text \<open>The truth value of a Python object, as \<open>or\<close>, \<open>not\<close> and \<open>if\<close> take it.\<close>

fun truthy :: "pyval \<Rightarrow> bool" where
  "truthy PNone = False"
| "truthy (PBool b) = b"
| "truthy (PInt i) = (i \<noteq> 0)"
| "truthy (PFloat f) = (case f of Finite m e \<Rightarrow> m \<noteq> 0 | Infinity s \<Rightarrow> True | NaN \<Rightarrow> True)"
| "truthy (PStr s) = (s \<noteq> [])"
| "truthy (PList xs) = (xs \<noteq> [])"
| "truthy (PDict kvs) = (kvs \<noteq> [])"
| "truthy (PObjectId n) = True"

text \<open>\<open>x or d\<close>\<close>

definition py_or :: "pyval \<Rightarrow> pyval \<Rightarrow> pyval" where
  "py_or x d = (if truthy x then x else d)"

text \<open>\<open>d.get(k)\<close>: the value, or \<open>None\<close> for a missing key.\<close>

definition dict_get :: "pydict \<Rightarrow> pystr \<Rightarrow> pyval" where
  "dict_get d k = (case map_of d k of None \<Rightarrow> PNone | Some v \<Rightarrow> v)"

text \<open>
  \<open>d[k] = v\<close>: an existing key keeps its place and takes the new value, a new key goes
  to the end.
\<close>

definition dict_set :: "pydict \<Rightarrow> pystr \<Rightarrow> pyval \<Rightarrow> pydict" where
  "dict_set d k v = AList.update k v d"

text \<open>\<open>{**d, **e}\<close>: the items of \<open>e\<close> are stored into \<open>d\<close> one after the other.\<close>

definition dict_merge :: "pydict \<Rightarrow> pydict \<Rightarrow> pydict" where
  "dict_merge d e = fold (\<lambda>(k, v) acc. dict_set acc k v) e d"

text \<open>\<open>sub in s\<close> on strings.\<close>

fun str_contains :: "pystr \<Rightarrow> pystr \<Rightarrow> bool" where
  "str_contains sub [] = (sub = [])"
| "str_contains sub (c # cs) = (take (length sub) (c # cs) = sub \<or> str_contains sub cs)"

text \<open>
  \<open>s.lower()\<close>. Below U+0100 the upper-case letters are A to Z, U+00C0 to U+00D6 and
  U+00D8 to U+00DE, each 32 below its lower-case letter. A string with a code point
  beyond that range is lowered by the interpreter's Unicode tables, which the model
  takes as the function \<open>ulower\<close>.
\<close>

definition lower_cp :: "nat \<Rightarrow> nat" where
  "lower_cp c = (if (65 \<le> c \<and> c \<le> 90) \<or> (192 \<le> c \<and> c \<le> 222 \<and> c \<noteq> 215) then c + 32 else c)"

definition str_lower :: "(pystr \<Rightarrow> pystr) \<Rightarrow> pystr \<Rightarrow> pystr" where
  "str_lower ulower s = (if list_all (\<lambda>c. c < 256) s then map lower_cp s else ulower s)"

section \<open>Exceptions and the world outside the handlers\<close>

text \<open>
  The exceptions that reach the handlers' \<open>except Exception\<close> clauses: those of the
  subscript and attribute operations on a decoded reply, and those the libraries raise
  (\<open>requests\<close>, \<open>json\<close>, the store driver), which carry the library's own description.
  \<open>StorageUnavailable\<close> is the store adapter's failure.
\<close>

datatype exn =
    KeyError pyval
  | IndexError
  | TypeError
  | AttributeError
  | JSONDecodeError pystr
  | RequestException pystr
  | HTTPError int
  | DriverError pystr
  | StorageUnavailable

text \<open>
  Sequencing: a statement that raises ends the enclosing \<open>try\<close> body with its
  exception, otherwise the next statement runs on its value.
\<close>

definition and_then :: "exn + 'a \<Rightarrow> ('a \<Rightarrow> exn + 'b) \<Rightarrow> exn + 'b" where
  "and_then r f = (case r of Inl x \<Rightarrow> Inl x | Inr v \<Rightarrow> f v)"

text \<open>What \<open>requests.post\<close> is called with (lines 130 to 146).\<close>

record http_request =
  url :: pystr
  json_payload :: pyval
  headers :: "(pystr \<times> pystr) list"
  timeout :: int

text \<open>
  A \<open>requests.Response\<close>: its status code, and what \<open>r.json()\<close> does (the decoded
  body, or the exception it raises).
\<close>

record response =
  resp_status_code :: int
  resp_json :: "exn + pyval"

text \<open>
  Everything the handlers read from outside: the module-level constant
  \<open>OPENAI_API_KEY\<close>, \<open>os.getenv\<close>, the imported \<open>db\<close> (\<open>None\<close>, or a handle whose
  \<open>list_collection_names()\<close> returns the names or raises), \<open>requests.post\<close>,
  \<open>json.loads\<close> on a \<open>str\<close>, \<open>str(e)\<close> of an exception, the Unicode lower-casing,
  \<open>str\<close> of the values whose rendering the model leaves to the interpreter, and the
  address check and normalisation behind \<open>EmailStr\<close>.
\<close>

record env =
  OPENAI_API_KEY :: "pystr option"
  getenv :: "pystr \<Rightarrow> pystr option"
  db :: "(exn + pystr list) option"
  requests_post :: "http_request \<Rightarrow> exn + response"
  json_loads :: "pystr \<Rightarrow> exn + pyval"
  exn_str :: "exn \<Rightarrow> pystr"
  unicode_lower :: "pystr \<Rightarrow> pystr"
  py_repr :: "pyval \<Rightarrow> pystr"
  validate_email :: "pystr \<Rightarrow> pystr option"

text \<open>\<open>raise HTTPException(status_code=..., detail=...)\<close>\<close>

datatype http_exception = HTTPException (status_code: int) (detail: pystr)

section \<open>Email generation (lines 43 to 51 and 113 to 161)\<close>

record GenerateRequest =
  product :: pystr
  audience :: pystr
  tone :: pystr
  call_to_action :: pystr

text \<open>The schema's defaults for the two optional fields.\<close>

definition GenerateRequest_of :: "pystr \<Rightarrow> pystr \<Rightarrow> pystr option \<Rightarrow> pystr option \<Rightarrow> GenerateRequest" where
  "GenerateRequest_of p a t c =
     \<lparr>product = p, audience = a,
      tone = (case t of None \<Rightarrow> ascii ''friendly'' | Some x \<Rightarrow> x),
      call_to_action = (case c of None \<Rightarrow> ascii ''Book a quick call?'' | Some x \<Rightarrow> x)\<rparr>"

text \<open>\<open>{"subject": subject, "body": body}\<close>\<close>

definition preview :: "pyval \<Rightarrow> pyval \<Rightarrow> pydict" where
  "preview s b = [(ascii ''subject'', s), (ascii ''body'', b)]"

text \<open>\<open>not OPENAI_API_KEY\<close>: the variable is unset or empty.\<close>

definition no_key :: "env \<Rightarrow> bool" where
  "no_key e = (case OPENAI_API_KEY e of None \<Rightarrow> True | Some k \<Rightarrow> k = [])"

text \<open>Lines 119 to 126: the template.\<close>

definition template_email :: "env \<Rightarrow> GenerateRequest \<Rightarrow> pydict" where
  "template_email e req =
     preview
       (PStr (ascii ''Quick idea about '' @ product req @ ascii '' for '' @ audience req))
       (PStr (ascii ''Hi there,\<newline>\<newline>''
          @ ascii ''I noticed you're working with '' @ audience req
          @ ascii ''. We built '' @ product req @ ascii '' that could help a lot.\<newline>\<newline>''
          @ ascii ''Would you be open to '' @ str_lower (unicode_lower e) (call_to_action req)
          @ ascii ''\<newline>\<newline>''
          @ ascii ''Best,\<newline>Your Name''))"

text \<open>Lines 130 to 146: the request sent to the text-generation service.\<close>

definition build_request :: "pystr \<Rightarrow> GenerateRequest \<Rightarrow> http_request" where
  "build_request key req =
     \<lparr>url = ascii ''https://api.openai.com/v1/chat/completions'',
      json_payload = PDict
        [(ascii ''model'', PStr (ascii ''gpt-4o-mini'')),
         (ascii ''messages'', PList
            [PDict [(ascii ''role'', PStr (ascii ''system'')),
                    (ascii ''content'', PStr (ascii ''You write concise, high-converting cold emails.''))],
             PDict [(ascii ''role'', PStr (ascii ''user'')),
                    (ascii ''content'', PStr
                       (ascii ''Generate a short cold email with subject and body as JSON. ''
                        @ ascii ''Product: '' @ product req @ ascii ''. Audience: '' @ audience req
                        @ ascii ''. Tone: '' @ tone req @ ascii ''. ''
                        @ ascii ''CTA: '' @ call_to_action req @ ascii ''.''))]]),
         (ascii ''response_format'', PDict [(ascii ''type'', PStr (ascii ''json_object''))])],
      headers = [(ascii ''Authorization'', ascii ''Bearer '' @ key),
                 (ascii ''Content-Type'', ascii ''application/json'')],
      timeout = 30\<rparr>"

text \<open>\<open>r.raise_for_status()\<close>: an error for the 4xx and 5xx codes, nothing otherwise.\<close>

definition raise_for_status :: "response \<Rightarrow> exn + unit" where
  "raise_for_status r =
     (if 400 \<le> resp_status_code r \<and> resp_status_code r < 600
      then Inl (HTTPError (resp_status_code r)) else Inr ())"

text \<open>
  \<open>v[k]\<close> for a string key: a lookup in a \<open>dict\<close>, an error on anything else.
\<close>

fun getitem_str :: "pyval \<Rightarrow> pystr \<Rightarrow> exn + pyval" where
  "getitem_str (PDict kvs) k =
     (case map_of kvs k of None \<Rightarrow> Inl (KeyError (PStr k)) | Some v \<Rightarrow> Inr v)"
| "getitem_str v k = Inl TypeError"

text \<open>
  \<open>v[i]\<close> for an integer: indexing into a \<open>list\<close> or a \<open>str\<close> (negative indices count
  from the end), a key lookup in a \<open>dict\<close> (whose keys here are all strings, so it
  fails), an error on anything else.
\<close>

definition seq_index :: "'a list \<Rightarrow> int \<Rightarrow> 'a option" where
  "seq_index xs i =
     (if 0 \<le> i \<and> i < int (length xs) then Some (xs ! nat i)
      else if i < 0 \<and> - int (length xs) \<le> i then Some (xs ! nat (int (length xs) + i))
      else None)"

fun getitem_int :: "pyval \<Rightarrow> int \<Rightarrow> exn + pyval" where
  "getitem_int (PList xs) i =
     (case seq_index xs i of None \<Rightarrow> Inl IndexError | Some v \<Rightarrow> Inr v)"
| "getitem_int (PStr s) i =
     (case seq_index s i of None \<Rightarrow> Inl IndexError | Some c \<Rightarrow> Inr (PStr [c]))"
| "getitem_int (PDict kvs) i = Inl (KeyError (PInt i))"
| "getitem_int v i = Inl TypeError"

text \<open>Line 149: \<open>data["choices"][0]["message"]["content"]\<close>\<close>

definition extract_content :: "pyval \<Rightarrow> exn + pyval" where
  "extract_content data =
     and_then (getitem_str data (ascii ''choices'')) (\<lambda>choices.
     and_then (getitem_int choices 0) (\<lambda>choice.
     and_then (getitem_str choice (ascii ''message'')) (\<lambda>message.
     getitem_str message (ascii ''content''))))"

text \<open>\<open>json.loads(content)\<close>: a \<open>TypeError\<close> unless the argument is a \<open>str\<close>.\<close>

definition loads :: "env \<Rightarrow> pyval \<Rightarrow> exn + pyval" where
  "loads e content = (case content of PStr s \<Rightarrow> json_loads e s | _ \<Rightarrow> Inl TypeError)"

text \<open>\<open>parsed.get(k)\<close>: only a \<open>dict\<close> has the method.\<close>

definition get_attr :: "pyval \<Rightarrow> pystr \<Rightarrow> exn + pyval" where
  "get_attr parsed k = (case parsed of PDict kvs \<Rightarrow> Inr (dict_get kvs k) | _ \<Rightarrow> Inl AttributeError)"

text \<open>Lines 153 to 155: the body of the inner \<open>try\<close>.\<close>

definition parse_content :: "env \<Rightarrow> pyval \<Rightarrow> exn + pydict" where
  "parse_content e content =
     and_then (loads e content) (\<lambda>parsed.
     and_then (get_attr parsed (ascii ''subject'')) (\<lambda>s.
     and_then (get_attr parsed (ascii ''body'')) (\<lambda>b.
     Inr (preview (py_or s (PStr (ascii ''Quick question'')))
                  (py_or b (PStr (ascii ''Hi, quick note about our product.'')))))))"

text \<open>Lines 152 to 159: the inner \<open>try\<close> with its handler.\<close>

definition reply_preview :: "env \<Rightarrow> pyval \<Rightarrow> pydict" where
  "reply_preview e content =
     (case parse_content e content of
        Inr d \<Rightarrow> d
      | Inl x \<Rightarrow> preview (PStr (ascii ''Quick question'')) content)"

text \<open>
  Lines 146 to 149: the call, the status check, the decoding of the reply and the
  extraction of the generated text.
\<close>

definition reply_content :: "env \<Rightarrow> http_request \<Rightarrow> exn + pyval" where
  "reply_content e rq =
     and_then (requests_post e rq) (\<lambda>r.
     and_then (raise_for_status r) (\<lambda>u.
     and_then (resp_json r) (\<lambda>data.
     extract_content data)))"

text \<open>Lines 146 to 159: what runs inside the outer \<open>try\<close> once the request is built.\<close>

definition call_upstream :: "env \<Rightarrow> http_request \<Rightarrow> exn + pydict" where
  "call_upstream e rq =
     and_then (reply_content e rq) (\<lambda>content. Inr (reply_preview e content))"

text \<open>Line 161: the outer handler.\<close>

definition generation_error :: "env \<Rightarrow> exn \<Rightarrow> http_exception" where
  "generation_error e x = HTTPException 500 (ascii ''Generation error: '' @ take 150 (exn_str e x))"

text \<open>
  The handler. Its result is what it returns or raises, together with the HTTP requests
  it has sent, in order.
\<close>

definition generate_email :: "env \<Rightarrow> GenerateRequest \<Rightarrow> (http_exception + pydict) \<times> http_request list" where
  "generate_email e req =
     (if no_key e then (Inr (template_email e req), [])
      else
        let rq = build_request (the (OPENAI_API_KEY e)) req in
        (case call_upstream e rq of
           Inr d \<Rightarrow> (Inr d, [rq])
         | Inl x \<Rightarrow> (Inl (generation_error e x), [rq])))"

section \<open>The diagnostic endpoint (lines 60 to 85)\<close>

text \<open>The three non-ASCII marks of the status strings: U+2705, U+274C, and U+26A0 U+FE0F.\<close>

definition check_mark :: pystr where
  "check_mark = [0x2705]"

definition cross_mark :: pystr where
  "cross_mark = [0x274C]"

definition warning_mark :: pystr where
  "warning_mark = [0x26A0, 0xFE0F]"

text \<open>Lines 62 to 69.\<close>

definition initial_response :: pydict where
  "initial_response =
     [(ascii ''backend'', PStr (check_mark @ ascii '' Running'')),
      (ascii ''database'', PStr (cross_mark @ ascii '' Not Available'')),
      (ascii ''database_url'', PNone),
      (ascii ''database_name'', PNone),
      (ascii ''connection_status'', PStr (ascii ''Not Connected'')),
      (ascii ''collections'', PList [])]"

text \<open>The truth value of \<open>os.getenv(k)\<close>, and \<open>os.getenv(k) or ""\<close>.\<close>

definition getenv_set :: "env \<Rightarrow> pystr \<Rightarrow> bool" where
  "getenv_set e k = (case getenv e k of None \<Rightarrow> False | Some v \<Rightarrow> v \<noteq> [])"

definition getenv_or_empty :: "env \<Rightarrow> pystr \<Rightarrow> pystr" where
  "getenv_or_empty e k = (case getenv e k of None \<Rightarrow> [] | Some v \<Rightarrow> v)"

text \<open>
  Lines 75 to 80, the inner \<open>try\<close>: when the listing raises, no key but
  \<open>database\<close> is touched.
\<close>

definition probe_collections :: "env \<Rightarrow> exn + pystr list \<Rightarrow> pydict \<Rightarrow> pydict" where
  "probe_collections e listing r =
     (case listing of
        Inr names \<Rightarrow>
          dict_set
            (dict_set
               (dict_set r (ascii ''collections'') (PList (map PStr (take 10 names))))
               (ascii ''database'') (PStr (check_mark @ ascii '' Connected & Working'')))
            (ascii ''connection_status'') (PStr (ascii ''Connected''))
      | Inl x \<Rightarrow>
          dict_set r (ascii ''database'')
            (PStr (warning_mark @ ascii '' Connected but Error: '' @ take 80 (exn_str e x))))"

text \<open>
  Lines 71 to 82, the body of the outer \<open>try\<close>: the exception that leaves it, if any,
  and the response as written so far. The one call that can raise sits in the inner
  \<open>try\<close>, whose handler catches every \<open>Exception\<close>.
\<close>

definition probe_database :: "env \<Rightarrow> pydict \<Rightarrow> exn option \<times> pydict" where
  "probe_database e r =
     (case db e of
        Some listing \<Rightarrow>
          (None,
           probe_collections e listing
             (dict_set
                (dict_set
                   (dict_set r (ascii ''database'') (PStr (check_mark @ ascii '' Available'')))
                   (ascii ''database_url'')
                   (PStr (if getenv_set e (ascii ''DATABASE_URL'')
                          then check_mark @ ascii '' Set'' else cross_mark @ ascii '' Not Set'')))
                (ascii ''database_name'') (PStr (getenv_or_empty e (ascii ''DATABASE_NAME'')))))
      | None \<Rightarrow>
          (None,
           dict_set r (ascii ''database'')
             (PStr (warning_mark @ ascii '' Available but not initialized''))))"

definition test_database :: "env \<Rightarrow> pydict" where
  "test_database e =
     (case probe_database e initial_response of
        (None, r) \<Rightarrow> r
      | (Some x, r) \<Rightarrow>
          dict_set r (ascii ''database'') (PStr (cross_mark @ ascii '' Error: '' @ take 80 (exn_str e x))))"

section \<open>The document store\<close>

text \<open>
  The store: whether it can be reached, the next identifier it will assign, and the
  documents of each collection in insertion order.
\<close>

record store =
  reachable :: bool
  next_oid :: nat
  colls :: "pystr \<Rightarrow> pydict list"

text \<open>\<open>str\<close> of an \<open>ObjectId\<close>: its 24 hexadecimal digits.\<close>

definition hex_digit :: "nat \<Rightarrow> nat" where
  "hex_digit d = (if d < 10 then 48 + d else 87 + d)"

fun hex_digits :: "nat \<Rightarrow> nat \<Rightarrow> pystr" where
  "hex_digits 0 n = []"
| "hex_digits (Suc k) n = hex_digits k (n div 16) @ [hex_digit (n mod 16)]"

definition oid_str :: "nat \<Rightarrow> pystr" where
  "oid_str n = hex_digits 24 n"

text \<open>
  Modelled from the spec: \<open>create_document\<close> of the module \<open>database\<close>, which is not
  among the sources. The spec's contract of the adapter: \<open>create(collection_name,
  record) -> id\<close> inserts the record into the named collection and returns a unique
  identifier as a string; it fails with \<open>StorageUnavailable\<close> when the store is
  unreachable or uninitialised; each call persists one record. The identifier is the
  store's \<open>ObjectId\<close> (line 105 of the source names the type), assigned from a counter
  and returned in string form.
\<close>

definition create_document :: "store \<Rightarrow> pystr \<Rightarrow> pydict \<Rightarrow> (exn + pystr) \<times> store" where
  "create_document st coll data =
     (if \<not> reachable st then (Inl StorageUnavailable, st)
      else
        (Inr (oid_str (next_oid st)),
         st\<lparr>next_oid := Suc (next_oid st),
            colls := (colls st)
              (coll := colls st coll @ [dict_set data (ascii ''_id'') (PObjectId (next_oid st))])\<rparr>))"

text \<open>A record matches a filter when it has every item of the filter.\<close>

definition matches :: "pydict \<Rightarrow> pydict \<Rightarrow> bool" where
  "matches flt doc = list_all (\<lambda>(k, v). map_of doc k = Some v) flt"

text \<open>
  Modelled from the spec: \<open>get_documents\<close> of the module \<open>database\<close>, which is not
  among the sources. The spec's contract: \<open>list(collection_name, filter, limit)\<close>
  returns up to \<open>limit\<close> matching records, each with its identifier; it fails with
  \<open>StorageUnavailable\<close> like \<open>create\<close>. The spec says nothing of a negative limit;
  here it yields no record.
\<close>

definition get_documents :: "store \<Rightarrow> pystr \<Rightarrow> pydict \<Rightarrow> int \<Rightarrow> exn + pydict list" where
  "get_documents st coll flt limit =
     (if \<not> reachable st then Inl StorageUnavailable
      else Inr (take (nat limit) (filter (matches flt) (colls st coll))))"

section \<open>Schemas and resource routes (lines 22 to 31 and 87 to 108)\<close>

record Workspace =
  name :: pystr
  owner_email :: pystr

record Prospect =
  email :: pystr
  first_name :: "pystr option"
  last_name :: "pystr option"
  company :: "pystr option"
  title :: "pystr option"

text \<open>\<open>model_dump()\<close>: a fresh \<open>dict\<close> of the fields, in declaration order.\<close>

definition opt_val :: "pystr option \<Rightarrow> pyval" where
  "opt_val x = (case x of None \<Rightarrow> PNone | Some s \<Rightarrow> PStr s)"

definition Workspace_dump :: "Workspace \<Rightarrow> pydict" where
  "Workspace_dump ws = [(ascii ''name'', PStr (name ws)), (ascii ''owner_email'', PStr (owner_email ws))]"

definition Prospect_dump :: "Prospect \<Rightarrow> pydict" where
  "Prospect_dump p =
     [(ascii ''email'', PStr (email p)),
      (ascii ''first_name'', opt_val (first_name p)),
      (ascii ''last_name'', opt_val (last_name p)),
      (ascii ''company'', opt_val (company p)),
      (ascii ''title'', opt_val (title p))]"

text \<open>
  Lines 87 to 95. The handler's result is what it returns or the exception that leaves
  it, and the store afterwards.
\<close>

definition create_workspace :: "store \<Rightarrow> Workspace \<Rightarrow> (exn + pydict) \<times> store" where
  "create_workspace st ws =
     (case create_document st (ascii ''workspace'') (Workspace_dump ws) of
        (Inl x, st') \<Rightarrow> (Inl x, st')
      | (Inr ws_id, st') \<Rightarrow> (Inr (dict_merge [(ascii ''id'', PStr ws_id)] (Workspace_dump ws)), st'))"

definition create_prospect :: "store \<Rightarrow> Prospect \<Rightarrow> (exn + pydict) \<times> store" where
  "create_prospect st p =
     (case create_document st (ascii ''prospect'') (Prospect_dump p) of
        (Inl x, st') \<Rightarrow> (Inl x, st')
      | (Inr pid, st') \<Rightarrow> (Inr (dict_merge [(ascii ''id'', PStr pid)] (Prospect_dump p)), st'))"

text \<open>
  The schema declarations, as the framework applies them to a request body before it
  calls the handler: a \<open>str\<close> field takes a string, an \<open>Optional[str] = None\<close> field a
  string, \<open>null\<close> or nothing, an \<open>EmailStr\<close> field a string that the address check
  accepts (the field then holds the normalised address). \<open>None\<close> is a rejected field.
\<close>

definition field_str :: "pydict \<Rightarrow> pystr \<Rightarrow> pystr option" where
  "field_str d k = (case map_of d k of Some (PStr s) \<Rightarrow> Some s | _ \<Rightarrow> None)"

definition field_opt_str :: "pydict \<Rightarrow> pystr \<Rightarrow> pystr option option" where
  "field_opt_str d k =
     (case map_of d k of
        None \<Rightarrow> Some None
      | Some PNone \<Rightarrow> Some None
      | Some (PStr s) \<Rightarrow> Some (Some s)
      | _ \<Rightarrow> None)"

definition field_email :: "env \<Rightarrow> pydict \<Rightarrow> pystr \<Rightarrow> pystr option" where
  "field_email e d k = (case map_of d k of Some (PStr s) \<Rightarrow> validate_email e s | _ \<Rightarrow> None)"

definition Workspace_validate :: "env \<Rightarrow> pyval \<Rightarrow> Workspace option" where
  "Workspace_validate e body =
     (case body of
        PDict d \<Rightarrow>
          (case (field_str d (ascii ''name''), field_email e d (ascii ''owner_email'')) of
             (Some n, Some m) \<Rightarrow> Some \<lparr>name = n, owner_email = m\<rparr>
           | _ \<Rightarrow> None)
      | _ \<Rightarrow> None)"

definition Prospect_validate :: "env \<Rightarrow> pyval \<Rightarrow> Prospect option" where
  "Prospect_validate e body =
     (case body of
        PDict d \<Rightarrow>
          (case (field_email e d (ascii ''email''),
                 field_opt_str d (ascii ''first_name''), field_opt_str d (ascii ''last_name''),
                 field_opt_str d (ascii ''company''), field_opt_str d (ascii ''title'')) of
             (Some m, Some f, Some l, Some c, Some t) \<Rightarrow>
               Some \<lparr>email = m, first_name = f, last_name = l, company = c, title = t\<rparr>
           | _ \<Rightarrow> None)
      | _ \<Rightarrow> None)"

text \<open>
  What a client of a route receives: the handler's value, the validation error of a
  rejected body (status 422), or a server error when an exception leaves the handler.
\<close>

datatype reply = Returned pydict | ValidationError | ServerError exn

definition reply_status :: "reply \<Rightarrow> int" where
  "reply_status r = (case r of Returned d \<Rightarrow> 200 | ValidationError \<Rightarrow> 422 | ServerError x \<Rightarrow> 500)"

definition handled :: "(exn + pydict) \<times> store \<Rightarrow> reply \<times> store" where
  "handled r = (case r of (Inl x, st) \<Rightarrow> (ServerError x, st) | (Inr d, st) \<Rightarrow> (Returned d, st))"

text \<open>\<open>POST /workspaces\<close> and \<open>POST /prospects\<close>: validation, then the handler.\<close>

definition post_workspaces :: "env \<Rightarrow> store \<Rightarrow> pyval \<Rightarrow> reply \<times> store" where
  "post_workspaces e st body =
     (case Workspace_validate e body of
        None \<Rightarrow> (ValidationError, st)
      | Some ws \<Rightarrow> handled (create_workspace st ws))"

definition post_prospects :: "env \<Rightarrow> store \<Rightarrow> pyval \<Rightarrow> reply \<times> store" where
  "post_prospects e st body =
     (case Prospect_validate e body of
        None \<Rightarrow> (ValidationError, st)
      | Some p \<Rightarrow> handled (create_prospect st p))"

text \<open>
  \<open>str(v)\<close>: \<open>None\<close>, a string and an \<open>ObjectId\<close> are rendered here, every other
  value by the interpreter.
\<close>

definition py_str :: "env \<Rightarrow> pyval \<Rightarrow> pystr" where
  "py_str e v =
     (case v of
        PNone \<Rightarrow> ascii ''None''
      | PStr s \<Rightarrow> s
      | PObjectId n \<Rightarrow> oid_str n
      | _ \<Rightarrow> py_repr e v)"

text \<open>Line 107: \<open>it["_id"] = str(it.get("_id"))\<close>\<close>

definition convert_id :: "env \<Rightarrow> pydict \<Rightarrow> pydict" where
  "convert_id e it = dict_set it (ascii ''_id'') (PStr (py_str e (dict_get it (ascii ''_id''))))"

text \<open>Lines 103 to 108; the limit is 20 when the query gives none.\<close>

definition list_campaigns :: "env \<Rightarrow> store \<Rightarrow> int option \<Rightarrow> exn + pydict list" where
  "list_campaigns e st limit =
     and_then (get_documents st (ascii ''campaign'') [] (case limit of None \<Rightarrow> 20 | Some n \<Rightarrow> n))
       (\<lambda>items. Inr (map (convert_id e) items))"

section \<open>The response model of the generation route (lines 49 to 51 and 115)\<close>

record EmailPreview =
  subject :: pystr
  body :: pystr

text \<open>
  \<open>response_model=EmailPreview\<close>: the framework checks what the handler returns against
  the schema before it answers; both fields must be strings.
\<close>

definition EmailPreview_validate :: "pydict \<Rightarrow> EmailPreview option" where
  "EmailPreview_validate d =
     (case (map_of d (ascii ''subject''), map_of d (ascii ''body'')) of
        (Some (PStr s), Some (PStr b)) \<Rightarrow> Some \<lparr>subject = s, body = b\<rparr>
      | _ \<Rightarrow> None)"

text \<open>
  What a client of \<open>POST /generate\<close> receives: the preview (status 200), the
  \<open>HTTPException\<close> the handler raised, or a server error (status 500) when the returned
  value does not fit the response model.
\<close>

datatype generate_response = Preview EmailPreview | Raised http_exception | ResponseValidationError

definition generate_status :: "generate_response \<Rightarrow> int" where
  "generate_status r =
     (case r of Preview p \<Rightarrow> 200 | Raised h \<Rightarrow> status_code h | ResponseValidationError \<Rightarrow> 500)"

text \<open>\<open>POST /generate\<close>: the handler, then the check of its result.\<close>

definition post_generate :: "env \<Rightarrow> GenerateRequest \<Rightarrow> generate_response \<times> http_request list" where
  "post_generate e req =
     (case generate_email e req of
        (Inl h, sent) \<Rightarrow> (Raised h, sent)
      | (Inr d, sent) \<Rightarrow>
          (case EmailPreview_validate d of
             None \<Rightarrow> (ResponseValidationError, sent)
           | Some p \<Rightarrow> (Preview p, sent)))"

section \<open>Sample inputs\<close>

text \<open>
  An environment with no credential, no store handle and an upstream call that times
  out; the examples below change the parts they need.
\<close>

definition sample_env :: env where
  "sample_env =
     \<lparr>OPENAI_API_KEY = None,
      getenv = (\<lambda>k. None),
      db = None,
      requests_post = (\<lambda>rq. Inl (RequestException (ascii ''timed out''))),
      json_loads = (\<lambda>s. Inl (JSONDecodeError (ascii ''Expecting value''))),
      exn_str = (\<lambda>x. case x of RequestException m \<Rightarrow> m | JSONDecodeError m \<Rightarrow> m
                     | DriverError m \<Rightarrow> m | _ \<Rightarrow> ascii ''error''),
      unicode_lower = (\<lambda>s. s),
      py_repr = (\<lambda>v. ascii ''?''),
      validate_email = (\<lambda>s. if s = ascii ''a@b.co'' then Some s else None)\<rparr>"

definition sample_store :: store where
  "sample_store = \<lparr>reachable = True, next_oid = 0, colls = (\<lambda>c. [])\<rparr>"

text \<open>
  A reachable store with two campaigns: one with the identifier the store assigned, one
  written without an identifier.
\<close>

definition campaign_store :: store where
  "campaign_store =
     \<lparr>reachable = True, next_oid = 2,
      colls = (\<lambda>c. if c = ascii ''campaign''
                   then [[(ascii ''name'', PStr (ascii ''Launch'')), (ascii ''_id'', PObjectId 1)],
                         [(ascii ''name'', PStr (ascii ''Imported''))]]
                   else [])\<rparr>"

text \<open>Request bodies for the two schemas with an address the checker refuses.\<close>

definition bad_workspace_body :: pyval where
  "bad_workspace_body =
     PDict [(ascii ''name'', PStr (ascii ''Acme'')), (ascii ''owner_email'', PStr (ascii ''not-an-email''))]"

definition bad_prospect_body :: pyval where
  "bad_prospect_body =
     PDict [(ascii ''email'', PStr (ascii ''not-an-email'')), (ascii ''company'', PStr (ascii ''Acme''))]"

definition sample_request :: GenerateRequest where
  "sample_request = GenerateRequest_of (ascii ''Acme'') (ascii ''startups'') None None"

text \<open>A chat-completion reply whose first choice carries the given content.\<close>

definition chat_reply :: "pyval \<Rightarrow> pyval" where
  "chat_reply content =
     PDict [(ascii ''choices'', PList [PDict [(ascii ''message'', PDict [(ascii ''content'', content)])]])]"

text \<open>
  An environment with a credential, whose upstream call answers with the given status
  and reply, and whose \<open>json.loads\<close> decodes the one text \<open>txt\<close> to \<open>v\<close>.
\<close>

definition upstream_env :: "int \<Rightarrow> pyval \<Rightarrow> pystr \<Rightarrow> pyval \<Rightarrow> env" where
  "upstream_env code reply txt v =
     sample_env
       \<lparr>OPENAI_API_KEY := Some (ascii ''sk-test''),
        requests_post := (\<lambda>rq. Inr \<lparr>resp_status_code = code, resp_json = Inr reply\<rparr>),
        json_loads := (\<lambda>s. if s = txt then Inr v else Inl (JSONDecodeError (ascii ''Expecting value'')))\<rparr>"

text \<open>An environment with a credential, whose upstream call fails with a 200-character message.\<close>

definition failing_env :: env where
  "failing_env =
     sample_env
       \<lparr>OPENAI_API_KEY := Some (ascii ''sk-test''),
        requests_post := (\<lambda>rq. Inl (RequestException (replicate 200 120)))\<rparr>"

text \<open>
  An environment whose address check lower-cases the domain of the one address it
  accepts, as the check behind \<open>EmailStr\<close> does, and a Workspace body with that address.
\<close>

definition normalising_env :: env where
  "normalising_env =
     sample_env
       \<lparr>validate_email := (\<lambda>s. if s = ascii ''Bob@EXAMPLE.COM''
                               then Some (ascii ''Bob@example.com'') else None)\<rparr>"

definition mixed_case_payload :: pyval where
  "mixed_case_payload =
     PDict [(ascii ''name'', PStr (ascii ''Acme'')), (ascii ''owner_email'', PStr (ascii ''Bob@EXAMPLE.COM''))]"

section \<open>Properties of the template path\<close>

text \<open>
  C1. With no generation credential configured (the variable unset, or set to the empty
  string), \<open>generate_email\<close> on product "Acme" and audience "startups", with the default
  tone and call to action, returns the subject "Quick idea about Acme for startups" and
  the body written out below, which contains the lower-cased call to action
  "book a quick call?"; it sends no request.
\<close>

theorem generate_email_acme:
  "\<exists>b. generate_email (e\<lparr>OPENAI_API_KEY := None\<rparr>)
          (GenerateRequest_of (ascii ''Acme'') (ascii ''startups'') None None)
        = (Inr (preview (PStr (ascii ''Quick idea about Acme for startups'')) (PStr b)), [])
      \<and> generate_email (e\<lparr>OPENAI_API_KEY := Some []\<rparr>)
          (GenerateRequest_of (ascii ''Acme'') (ascii ''startups'') None None)
        = (Inr (preview (PStr (ascii ''Quick idea about Acme for startups'')) (PStr b)), [])
      \<and> b = ascii ''Hi there,\<newline>\<newline>I noticed you're working with startups. We built Acme that could help a lot.\<newline>\<newline>Would you be open to book a quick call?\<newline>\<newline>Best,\<newline>Your Name''
      \<and> str_contains (ascii ''book a quick call?'') b"
  by (simp add: generate_email_def no_key_def template_email_def GenerateRequest_of_def
      str_lower_def lower_cp_def ascii_def)

theorem generate_email_acme_witness:
  "\<exists>b. generate_email (sample_env\<lparr>OPENAI_API_KEY := None\<rparr>)
          (GenerateRequest_of (ascii ''Acme'') (ascii ''startups'') None None)
        = (Inr (preview (PStr (ascii ''Quick idea about Acme for startups'')) (PStr b)), [])
      \<and> str_contains (ascii ''book a quick call?'') b"
  using generate_email_acme [of sample_env] by blast

text \<open>
  C2. With no generation credential configured, the result of \<open>generate_email\<close> is a
  function of the request alone: two environments without a credential (whatever their
  network, store, decoder and variables do) give the same subject and body for the same
  request, no HTTP request is sent, and the handler returns a subject and a body, both
  strings, and never raises. The one thing the environments must share is the
  interpreter's lower-casing of non-Latin text.
\<close>

theorem generate_email_template_pure:
  assumes "no_key e1" and "no_key e2" and "unicode_lower e1 = unicode_lower e2"
  shows "generate_email e1 req = generate_email e2 req
       \<and> snd (generate_email e1 req) = []
       \<and> (\<exists>s b. fst (generate_email e1 req) = Inr (preview (PStr s) (PStr b)))"
  using assms by (auto simp: generate_email_def template_email_def)

theorem generate_email_template_pure_witness:
  "generate_email sample_env sample_request
     = generate_email (failing_env\<lparr>OPENAI_API_KEY := Some []\<rparr>) sample_request
   \<and> snd (generate_email sample_env sample_request) = []
   \<and> (\<exists>s b. fst (generate_email sample_env sample_request) = Inr (preview (PStr s) (PStr b)))"
proof -
  have a: "no_key sample_env"
    by (simp add: no_key_def sample_env_def)
  have b: "no_key (failing_env\<lparr>OPENAI_API_KEY := Some []\<rparr>)"
    by (simp add: no_key_def)
  have c: "unicode_lower sample_env = unicode_lower (failing_env\<lparr>OPENAI_API_KEY := Some []\<rparr>)"
    by (simp add: failing_env_def)
  show ?thesis using generate_email_template_pure [OF a b c] .
qed

section \<open>Properties of the credentialed path\<close>

lemma generate_email_with_key:
  assumes "\<not> no_key e"
  shows "generate_email e req =
    (case call_upstream e (build_request (the (OPENAI_API_KEY e)) req) of
       Inr d \<Rightarrow> (Inr d, [build_request (the (OPENAI_API_KEY e)) req])
     | Inl x \<Rightarrow> (Inl (generation_error e x), [build_request (the (OPENAI_API_KEY e)) req]))"
  using assms by (simp add: generate_email_def Let_def)

lemma generate_email_reply:
  assumes "\<not> no_key e"
    and "reply_content e (build_request (the (OPENAI_API_KEY e)) req) = Inr content"
  shows "generate_email e req =
    (Inr (reply_preview e content), [build_request (the (OPENAI_API_KEY e)) req])"
  using assms by (simp add: generate_email_with_key call_upstream_def and_then_def)

lemma reply_preview_raised:
  assumes "parse_content e content = Inl x"
  shows "reply_preview e content = preview (PStr (ascii ''Quick question'')) content"
  using assms by (simp add: reply_preview_def)

lemma parse_content_loads_raised:
  assumes "loads e content = Inl x"
  shows "parse_content e content = Inl x"
  using assms by (simp add: parse_content_def and_then_def)


lemma parse_content_dict:
  assumes "loads e content = Inr (PDict kvs)"
  shows "parse_content e content =
    Inr (preview (py_or (dict_get kvs (ascii ''subject'')) (PStr (ascii ''Quick question'')))
                 (py_or (dict_get kvs (ascii ''body'')) (PStr (ascii ''Hi, quick note about our product.''))))"
  using assms by (simp add: parse_content_def and_then_def get_attr_def)

lemma reply_preview_dict:
  assumes "loads e content = Inr (PDict kvs)"
  shows "reply_preview e content =
    preview (py_or (dict_get kvs (ascii ''subject'')) (PStr (ascii ''Quick question'')))
            (py_or (dict_get kvs (ascii ''body'')) (PStr (ascii ''Hi, quick note about our product.'')))"
  using assms by (simp add: reply_preview_def parse_content_dict)


lemma py_or_falsy:
  assumes "map_of kvs k = Some v" and "\<not> truthy v"
  shows "py_or (dict_get kvs k) d = d"
  using assms by (simp add: py_or_def dict_get_def)

lemma post_generate_fst:
  assumes "fst (generate_email e req) = Inr d"
  shows "fst (post_generate e req)
    = (case EmailPreview_validate d of None \<Rightarrow> ResponseValidationError | Some p \<Rightarrow> Preview p)"
  using assms by (cases "generate_email e req") (simp add: post_generate_def split: option.splits)





lemma upstream_env_has_key: "\<not> no_key (upstream_env code reply txt v)"
  by (simp add: no_key_def upstream_env_def ascii_def)

lemma extract_content_chat_reply: "extract_content (chat_reply c) = Inr c"
  by (simp add: extract_content_def chat_reply_def and_then_def seq_index_def)

lemma upstream_env_reply_content:
  assumes "\<not> (400 \<le> code \<and> code < 600)"
  shows "reply_content (upstream_env code (chat_reply c) txt v) rq = Inr c"
  using assms
  by (simp add: reply_content_def and_then_def raise_for_status_def upstream_env_def
      extract_content_chat_reply)

lemma upstream_env_loads_txt: "loads (upstream_env code reply txt v) (PStr txt) = Inr v"
  by (simp add: loads_def upstream_env_def)

lemma upstream_env_loads_other:
  assumes "s \<noteq> txt"
  shows "loads (upstream_env code reply txt v) (PStr s) = Inl (JSONDecodeError (ascii ''Expecting value''))"
  using assms by (simp add: loads_def upstream_env_def)

lemma py_or_eval_absent: "py_or (dict_get [(ascii ''body'', v)] (ascii ''subject'')) d = d"
  by (simp add: py_or_def dict_get_def ascii_def)

lemma py_or_eval_body: "py_or (dict_get [(ascii ''body'', PStr (ascii ''Hello''))] (ascii ''body'')) d = PStr (ascii ''Hello'')"
  by (simp add: py_or_def dict_get_def ascii_def)

lemma hello_preview:
  assumes "\<not> (400 \<le> code \<and> code < 600)"
  shows "fst (generate_email
        (upstream_env code (chat_reply (PStr txt)) txt (PDict [(ascii ''body'', PStr (ascii ''Hello''))]))
        sample_request)
     = Inr (preview (PStr (ascii ''Quick question'')) (PStr (ascii ''Hello'')))"
proof -
  let ?e = "upstream_env code (chat_reply (PStr txt)) txt (PDict [(ascii ''body'', PStr (ascii ''Hello''))])"
  have "generate_email ?e sample_request
      = (Inr (reply_preview ?e (PStr txt)), [build_request (the (OPENAI_API_KEY ?e)) sample_request])"
    by (rule generate_email_reply [OF upstream_env_has_key upstream_env_reply_content [OF assms]])
  then have "fst (generate_email ?e sample_request) = Inr (reply_preview ?e (PStr txt))"
    by simp
  also have "reply_preview ?e (PStr txt)
      = preview (py_or (dict_get [(ascii ''body'', PStr (ascii ''Hello''))] (ascii ''subject'')) (PStr (ascii ''Quick question'')))
                (py_or (dict_get [(ascii ''body'', PStr (ascii ''Hello''))] (ascii ''body'')) (PStr (ascii ''Hi, quick note about our product.'')))"
    by (rule reply_preview_dict [OF upstream_env_loads_txt])
  finally show ?thesis
    by (simp only: py_or_eval_absent py_or_eval_body)
qed



text \<open>
  A reply whose content is not text lies outside that statement: for the content
  \<open>null\<close> the handler returns \<open>None\<close> as the body, the response model refuses it, and
  the client receives a server error.
\<close>

lemma post_generate_null_content:
  "fst (post_generate (upstream_env 200 (chat_reply PNone) (ascii ''{}'') (PDict [])) sample_request)
     = ResponseValidationError
   \<and> generate_status ResponseValidationError = 500"
proof -
  let ?e = "upstream_env 200 (chat_reply PNone) (ascii ''{}'') (PDict [])"
  have b: "reply_content ?e (build_request (the (OPENAI_API_KEY ?e)) sample_request) = Inr PNone"
    by (rule upstream_env_reply_content) simp
  have "loads ?e PNone = Inl TypeError" by (simp add: loads_def)
  from reply_preview_raised [OF parse_content_loads_raised [OF this]]
  have "fst (generate_email ?e sample_request) = Inr (preview (PStr (ascii ''Quick question'')) PNone)"
    by (simp add: generate_email_reply [OF upstream_env_has_key b])
  from post_generate_fst [OF this] show ?thesis
    by (simp add: EmailPreview_validate_def preview_def ascii_def generate_status_def)
qed

lemma call_upstream_post_raised:
  assumes "requests_post e rq = Inl x"
  shows "call_upstream e rq = Inl x"
  using assms by (simp add: call_upstream_def reply_content_def and_then_def)

lemma call_upstream_status:
  assumes "requests_post e rq = Inr r" and "400 \<le> resp_status_code r" and "resp_status_code r < 600"
  shows "call_upstream e rq = Inl (HTTPError (resp_status_code r))"
  using assms by (simp add: call_upstream_def reply_content_def and_then_def raise_for_status_def)

lemma call_upstream_json_raised:
  assumes "requests_post e rq = Inr r" and "raise_for_status r = Inr ()" and "resp_json r = Inl x"
  shows "call_upstream e rq = Inl x"
  using assms by (simp add: call_upstream_def reply_content_def and_then_def)

lemma call_upstream_shape_raised:
  assumes "requests_post e rq = Inr r" and "raise_for_status r = Inr ()"
    and "resp_json r = Inr data" and "extract_content data = Inl x"
  shows "call_upstream e rq = Inl x"
  using assms by (simp add: call_upstream_def reply_content_def and_then_def)

lemma generate_email_raised:
  assumes "\<not> no_key e" and "call_upstream e (build_request (the (OPENAI_API_KEY e)) req) = Inl x"
  shows "generate_email e req
    = (Inl (HTTPException 500 (ascii ''Generation error: '' @ take 150 (exn_str e x))),
       [build_request (the (OPENAI_API_KEY e)) req])"
  using assms by (simp add: generate_email_with_key generation_error_def)

lemma detail_length: "length (ascii ''Generation error: '' @ take 150 s) \<le> 168"
  by (simp add: ascii_def)

text \<open>
  C4, as the code has it. In the credentialed path, every exception of the outer
  \<open>try\<close> makes \<open>generate_email\<close> raise an \<open>HTTPException\<close> with status 500 whose
  detail is "Generation error: " followed by the first 150 characters of the exception's
  text, 168 characters at most, after the one request it sent. The outer \<open>try\<close> ends with
  an exception when \<open>requests.post\<close> raises (a timeout, a transport failure), when the
  status is a 4xx or 5xx code, when the reply does not decode, and when the decoded reply
  lacks \<open>choices[0].message.content\<close>.
\<close>

theorem generate_email_upstream_failure:
  assumes "\<not> no_key e" and "rq = build_request (the (OPENAI_API_KEY e)) req"
  shows "(\<forall>x. call_upstream e rq = Inl x \<longrightarrow>
            generate_email e req
              = (Inl (HTTPException 500 (ascii ''Generation error: '' @ take 150 (exn_str e x))), [rq])
            \<and> length (take 150 (exn_str e x)) \<le> 150
            \<and> length (ascii ''Generation error: '' @ take 150 (exn_str e x)) \<le> 168)
    \<and> (\<forall>x. requests_post e rq = Inl x \<longrightarrow> call_upstream e rq = Inl x)
    \<and> (\<forall>r. requests_post e rq = Inr r \<longrightarrow> 400 \<le> resp_status_code r \<longrightarrow> resp_status_code r < 600 \<longrightarrow>
            call_upstream e rq = Inl (HTTPError (resp_status_code r)))
    \<and> (\<forall>r x. requests_post e rq = Inr r \<longrightarrow> raise_for_status r = Inr () \<longrightarrow> resp_json r = Inl x \<longrightarrow>
            call_upstream e rq = Inl x)
    \<and> (\<forall>r data x. requests_post e rq = Inr r \<longrightarrow> raise_for_status r = Inr () \<longrightarrow>
            resp_json r = Inr data \<longrightarrow> extract_content data = Inl x \<longrightarrow>
            call_upstream e rq = Inl x)"
proof (intro conjI allI impI)
  fix x assume "call_upstream e rq = Inl x"
  then show "generate_email e req
      = (Inl (HTTPException 500 (ascii ''Generation error: '' @ take 150 (exn_str e x))), [rq])"
    using assms generate_email_raised by simp
  show "length (take 150 (exn_str e x)) \<le> 150" by simp
  show "length (ascii ''Generation error: '' @ take 150 (exn_str e x)) \<le> 168"
    by (rule detail_length)
qed (erule (2) call_upstream_post_raised call_upstream_status call_upstream_json_raised
      call_upstream_shape_raised | erule (3) call_upstream_shape_raised
      | erule call_upstream_post_raised)+

lemma failing_env_has_key: "\<not> no_key failing_env"
  by (simp add: no_key_def failing_env_def ascii_def)

lemma failing_env_post: "requests_post failing_env rq = Inl (RequestException (replicate 200 120))"
  by (simp add: failing_env_def)

lemma failing_env_str: "exn_str failing_env (RequestException m) = m"
  by (simp add: failing_env_def sample_env_def)

lemma failing_env_result:
  "generate_email failing_env sample_request
     = (Inl (HTTPException 500 (ascii ''Generation error: '' @ replicate 150 120)),
        [build_request (the (OPENAI_API_KEY failing_env)) sample_request])"
proof -
  have "generate_email failing_env sample_request
     = (Inl (HTTPException 500 (ascii ''Generation error: ''
            @ take 150 (exn_str failing_env (RequestException (replicate 200 120))))),
        [build_request (the (OPENAI_API_KEY failing_env)) sample_request])"
    by (rule generate_email_raised [OF failing_env_has_key call_upstream_post_raised [OF failing_env_post]])
  then show ?thesis by (simp add: failing_env_str)
qed

theorem generate_email_upstream_failure_witness:
  "generate_email failing_env sample_request
     = (Inl (HTTPException 500 (ascii ''Generation error: '' @ take 150 (replicate 200 120))),
        [build_request (the (OPENAI_API_KEY failing_env)) sample_request])
   \<and> length (ascii ''Generation error: '' @ take 150 (replicate 200 (120::nat))) \<le> 168"
proof -
  let ?rq = "build_request (the (OPENAI_API_KEY failing_env)) sample_request"
  note t = generate_email_upstream_failure [OF failing_env_has_key refl, of sample_request]
  from t have post: "\<forall>x. requests_post failing_env ?rq = Inl x \<longrightarrow> call_upstream failing_env ?rq = Inl x"
    by (elim conjE)
  from t have fail: "\<forall>x. call_upstream failing_env ?rq = Inl x \<longrightarrow>
            generate_email failing_env sample_request
              = (Inl (HTTPException 500 (ascii ''Generation error: '' @ take 150 (exn_str failing_env x))), [?rq])
            \<and> length (take 150 (exn_str failing_env x)) \<le> 150
            \<and> length (ascii ''Generation error: '' @ take 150 (exn_str failing_env x)) \<le> 168"
    by (elim conjE)
  from post failing_env_post
  have c: "call_upstream failing_env ?rq = Inl (RequestException (replicate 200 120))"
    by (elim allE impE)
  from fail [rule_format, OF c] show ?thesis
    by (simp only: failing_env_str)
qed

text \<open>
  C4 as stated fails twice. An upstream failure whose text has 200 characters gives a
  detail of 168 characters, more than 150: the prefix is not counted in the truncation.
  And a reply with status 300, which is not a success, passes \<open>raise_for_status\<close> and
  is answered like a 200.
\<close>

theorem generate_email_detail_length_counterexample:
  \<open>fst (generate_email failing_env sample_request)
     = Inl (HTTPException 500 (ascii ''Generation error: '' @ replicate 150 120))
   \<and> \<not> length (ascii ''Generation error: '' @ replicate 150 (120::nat)) \<le> 150
   \<and> fst (generate_email
        (upstream_env 300 (chat_reply (PStr (ascii ''{"body": "Hello"}''))) (ascii ''{"body": "Hello"}'')
           (PDict [(ascii ''body'', PStr (ascii ''Hello''))]))
        sample_request)
     = Inr (preview (PStr (ascii ''Quick question'')) (PStr (ascii ''Hello'')))\<close>
proof (intro conjI)
  show "fst (generate_email failing_env sample_request)
     = Inl (HTTPException 500 (ascii ''Generation error: '' @ replicate 150 120))"
    by (simp add: failing_env_result)
  show "\<not> length (ascii ''Generation error: '' @ replicate 150 (120::nat)) \<le> 150"
    by (simp add: ascii_def)
qed (rule hello_preview, simp)

text \<open>
  C9. In the credentialed path, when the reply content decodes to an object, a subject
  that is present but falsy is returned as "Quick question" and a body that is present
  but falsy as "Hi, quick note about our product."; neither field of the result is ever
  the empty string.
\<close>

theorem generate_email_falsy_fields:
  assumes "\<not> no_key e"
    and "reply_content e (build_request (the (OPENAI_API_KEY e)) req) = Inr content"
    and "loads e content = Inr (PDict kvs)"
  shows "\<exists>s b. fst (generate_email e req) = Inr (preview s b)
     \<and> (\<forall>v. map_of kvs (ascii ''subject'') = Some v \<longrightarrow> \<not> truthy v \<longrightarrow>
            s = PStr (ascii ''Quick question''))
     \<and> (\<forall>v. map_of kvs (ascii ''body'') = Some v \<longrightarrow> \<not> truthy v \<longrightarrow>
            b = PStr (ascii ''Hi, quick note about our product.''))
     \<and> s \<noteq> PStr [] \<and> b \<noteq> PStr []"
proof (intro exI conjI allI impI)
  show "fst (generate_email e req) =
      Inr (preview (py_or (dict_get kvs (ascii ''subject'')) (PStr (ascii ''Quick question'')))
                   (py_or (dict_get kvs (ascii ''body'')) (PStr (ascii ''Hi, quick note about our product.''))))"
    using assms by (simp add: generate_email_reply reply_preview_dict)
  show "py_or (dict_get kvs (ascii ''subject'')) (PStr (ascii ''Quick question'')) \<noteq> PStr []"
    by (auto simp: py_or_def ascii_def)
  show "py_or (dict_get kvs (ascii ''body'')) (PStr (ascii ''Hi, quick note about our product.'')) \<noteq> PStr []"
    by (auto simp: py_or_def ascii_def)
qed (erule (1) py_or_falsy)+

theorem generate_email_falsy_fields_witness:
  \<open>fst (generate_email
        (upstream_env 200 (chat_reply (PStr (ascii ''{"subject": "", "body": ""}'')))
           (ascii ''{"subject": "", "body": ""}'')
           (PDict [(ascii ''subject'', PStr []), (ascii ''body'', PStr [])]))
        sample_request)
     = Inr (preview (PStr (ascii ''Quick question'')) (PStr (ascii ''Hi, quick note about our product.'')))\<close>
proof -
  let ?t = \<open>ascii ''{"subject": "", "body": ""}''\<close>
  let ?kvs = "[(ascii ''subject'', PStr []), (ascii ''body'', PStr [])]"
  let ?e = "upstream_env 200 (chat_reply (PStr ?t)) ?t (PDict ?kvs)"
  have b: "reply_content ?e (build_request (the (OPENAI_API_KEY ?e)) sample_request) = Inr (PStr ?t)"
    by (rule upstream_env_reply_content) simp
  have s: "map_of ?kvs (ascii ''subject'') = Some (PStr [])" by simp
  have d: "map_of ?kvs (ascii ''body'') = Some (PStr [])" by (simp add: ascii_def)
  have f: "\<not> truthy (PStr [])" by simp
  from generate_email_falsy_fields [OF upstream_env_has_key b upstream_env_loads_txt]
  obtain sv bv where r: "fst (generate_email ?e sample_request) = Inr (preview sv bv)"
    and sq: "\<forall>v. map_of ?kvs (ascii ''subject'') = Some v \<longrightarrow> \<not> truthy v \<longrightarrow>
            sv = PStr (ascii ''Quick question'')"
    and bq: "\<forall>v. map_of ?kvs (ascii ''body'') = Some v \<longrightarrow> \<not> truthy v \<longrightarrow>
            bv = PStr (ascii ''Hi, quick note about our product.'')"
    by (elim exE conjE)
  from sq s f have "sv = PStr (ascii ''Quick question'')" by (elim allE impE)
  moreover from bq d f have "bv = PStr (ascii ''Hi, quick note about our product.'')" by (elim allE impE)
  ultimately show ?thesis using r by (simp only:)
qed

section \<open>Properties of the diagnostic endpoint\<close>

lemma test_database_absent:
  assumes "db e = None"
  shows "test_database e =
     [(ascii ''backend'', PStr (check_mark @ ascii '' Running'')),
      (ascii ''database'', PStr (warning_mark @ ascii '' Available but not initialized'')),
      (ascii ''database_url'', PNone),
      (ascii ''database_name'', PNone),
      (ascii ''connection_status'', PStr (ascii ''Not Connected'')),
      (ascii ''collections'', PList [])]"
  using assms
  by (simp add: test_database_def probe_database_def initial_response_def dict_set_def ascii_def)

lemma test_database_listing_raised:
  assumes "db e = Some (Inl x)"
  shows "test_database e =
     [(ascii ''backend'', PStr (check_mark @ ascii '' Running'')),
      (ascii ''database'', PStr (warning_mark @ ascii '' Connected but Error: '' @ take 80 (exn_str e x))),
      (ascii ''database_url'',
         PStr (if getenv_set e (ascii ''DATABASE_URL'')
               then check_mark @ ascii '' Set'' else cross_mark @ ascii '' Not Set'')),
      (ascii ''database_name'', PStr (getenv_or_empty e (ascii ''DATABASE_NAME''))),
      (ascii ''connection_status'', PStr (ascii ''Not Connected'')),
      (ascii ''collections'', PList [])]"
  using assms
  by (simp add: test_database_def probe_database_def probe_collections_def initial_response_def
      dict_set_def ascii_def)

lemma test_database_working:
  assumes "db e = Some (Inr names)"
  shows "test_database e =
     [(ascii ''backend'', PStr (check_mark @ ascii '' Running'')),
      (ascii ''database'', PStr (check_mark @ ascii '' Connected & Working'')),
      (ascii ''database_url'',
         PStr (if getenv_set e (ascii ''DATABASE_URL'')
               then check_mark @ ascii '' Set'' else cross_mark @ ascii '' Not Set'')),
      (ascii ''database_name'', PStr (getenv_or_empty e (ascii ''DATABASE_NAME''))),
      (ascii ''connection_status'', PStr (ascii ''Connected'')),
      (ascii ''collections'', PList (map PStr (take 10 names)))]"
  using assms
  by (simp add: test_database_def probe_database_def probe_collections_def initial_response_def
      dict_set_def ascii_def)

text \<open>
  C5. \<open>test_database\<close> has no raising path: the one call that can raise is made inside
  the inner \<open>try\<close>, and its exception becomes a status string. In every store condition
  the result has exactly the keys backend, database, database_url, database_name,
  connection_status and collections; its database entry is a string and its collections
  entry a list of at most 10 names. With no store object the status is "Available but
  not initialized"; when the listing raises, the status is "Connected but Error: " with
  the first 80 characters of the exception's text, and the connection stays "Not
  Connected" with no collections; when the listing works the first 10 names are
  reported and the connection is "Connected".
\<close>

theorem test_database_wellformed:
  "map fst (test_database e)
     = [ascii ''backend'', ascii ''database'', ascii ''database_url'', ascii ''database_name'',
        ascii ''connection_status'', ascii ''collections'']
   \<and> (\<exists>s. map_of (test_database e) (ascii ''database'') = Some (PStr s))
   \<and> (\<exists>names. map_of (test_database e) (ascii ''collections'') = Some (PList (map PStr names))
          \<and> length names \<le> 10)
   \<and> (db e = None \<longrightarrow>
          map_of (test_database e) (ascii ''database'')
            = Some (PStr (warning_mark @ ascii '' Available but not initialized''))
        \<and> map_of (test_database e) (ascii ''connection_status'') = Some (PStr (ascii ''Not Connected''))
        \<and> map_of (test_database e) (ascii ''collections'') = Some (PList []))
   \<and> (\<forall>x. db e = Some (Inl x) \<longrightarrow>
          map_of (test_database e) (ascii ''database'')
            = Some (PStr (warning_mark @ ascii '' Connected but Error: '' @ take 80 (exn_str e x)))
        \<and> map_of (test_database e) (ascii ''connection_status'') = Some (PStr (ascii ''Not Connected''))
        \<and> map_of (test_database e) (ascii ''collections'') = Some (PList []))
   \<and> (\<forall>names. db e = Some (Inr names) \<longrightarrow>
          map_of (test_database e) (ascii ''database'')
            = Some (PStr (check_mark @ ascii '' Connected & Working''))
        \<and> map_of (test_database e) (ascii ''connection_status'') = Some (PStr (ascii ''Connected''))
        \<and> map_of (test_database e) (ascii ''collections'') = Some (PList (map PStr (take 10 names))))"
proof (cases "db e")
  case None
  show ?thesis
    unfolding test_database_absent [OF None] using None
    by (simp add: ascii_def)
next
  case (Some listing)
  show ?thesis
  proof (cases listing)
    case (Inl x)
    with Some have d: "db e = Some (Inl x)" by simp
    show ?thesis
      unfolding test_database_listing_raised [OF d] using d
      by (simp add: ascii_def)
  next
    case (Inr names)
    with Some have d: "db e = Some (Inr names)" by simp
    show ?thesis
      unfolding test_database_working [OF d] using d
      by (simp add: ascii_def) (rule exI [of _ "take 10 names"], simp)
  qed
qed

theorem test_database_wellformed_witness:
  "map_of (test_database sample_env) (ascii ''database'')
     = Some (PStr (warning_mark @ ascii '' Available but not initialized''))
   \<and> map_of (test_database (sample_env\<lparr>db := Some (Inl (DriverError (ascii ''server unreachable'')))\<rparr>))
        (ascii ''database'')
     = Some (PStr (warning_mark @ ascii '' Connected but Error: server unreachable''))
   \<and> map_of (test_database (sample_env\<lparr>db := Some (Inr (replicate 12 (ascii ''c'')))\<rparr>))
        (ascii ''collections'')
     = Some (PList (replicate 10 (PStr (ascii ''c''))))"
proof (intro conjI)
  have n: "db sample_env = None"
    by (simp add: sample_env_def)
  from test_database_wellformed [of sample_env] n
  show "map_of (test_database sample_env) (ascii ''database'')
     = Some (PStr (warning_mark @ ascii '' Available but not initialized''))"
    by (elim conjE impE)
next
  let ?e = "sample_env\<lparr>db := Some (Inl (DriverError (ascii ''server unreachable'')))\<rparr>"
  have d: "db ?e = Some (Inl (DriverError (ascii ''server unreachable'')))" by simp
  have s: "take 80 (exn_str ?e (DriverError (ascii ''server unreachable''))) = ascii ''server unreachable''"
    by (simp add: sample_env_def ascii_def)
  from test_database_wellformed [of ?e]
  have "\<forall>x. db ?e = Some (Inl x) \<longrightarrow>
          map_of (test_database ?e) (ascii ''database'')
            = Some (PStr (warning_mark @ ascii '' Connected but Error: '' @ take 80 (exn_str ?e x)))
        \<and> map_of (test_database ?e) (ascii ''connection_status'') = Some (PStr (ascii ''Not Connected''))
        \<and> map_of (test_database ?e) (ascii ''collections'') = Some (PList [])"
    by (elim conjE)
  from this [rule_format, OF d]
  show "map_of (test_database ?e) (ascii ''database'')
     = Some (PStr (warning_mark @ ascii '' Connected but Error: server unreachable''))"
    by (simp only: s) (simp add: ascii_def)
next
  let ?e = "sample_env\<lparr>db := Some (Inr (replicate 12 (ascii ''c'')))\<rparr>"
  have d: "db ?e = Some (Inr (replicate 12 (ascii ''c'')))" by simp
  from test_database_wellformed [of ?e]
  have "\<forall>names. db ?e = Some (Inr names) \<longrightarrow>
          map_of (test_database ?e) (ascii ''database'')
            = Some (PStr (check_mark @ ascii '' Connected & Working''))
        \<and> map_of (test_database ?e) (ascii ''connection_status'') = Some (PStr (ascii ''Connected''))
        \<and> map_of (test_database ?e) (ascii ''collections'') = Some (PList (map PStr (take 10 names)))"
    by (elim conjE)
  from this [rule_format, OF d]
  show "map_of (test_database ?e) (ascii ''collections'')
     = Some (PList (replicate 10 (PStr (ascii ''c''))))"
    by simp
qed

section \<open>Properties of the resource routes\<close>

lemma map_of_dict_set: "map_of (dict_set d k v) = (map_of d)(k \<mapsto> v)"
  by (simp add: dict_set_def update_conv')

lemma convert_id_str:
  "map_of (convert_id e it) (ascii ''_id'') = Some (PStr (py_str e (dict_get it (ascii ''_id''))))"
  by (simp add: convert_id_def map_of_dict_set)

lemma convert_id_absent:
  assumes "map_of it (ascii ''_id'') = None"
  shows "map_of (convert_id e it) (ascii ''_id'') = Some (PStr (ascii ''None''))"
  using assms by (simp add: convert_id_str dict_get_def py_str_def)

lemma convert_id_other:
  assumes "k \<noteq> ascii ''_id''"
  shows "map_of (convert_id e it) k = map_of it k"
  using assms by (simp add: convert_id_def map_of_dict_set)

lemma list_campaigns_Inr:
  assumes "list_campaigns e st limit = Inr items"
  shows "reachable st
    \<and> items = map (convert_id e)
        (take (nat (case limit of None \<Rightarrow> 20 | Some n \<Rightarrow> n))
           (filter (matches []) (colls st (ascii ''campaign''))))"
  using assms
  by (auto simp: list_campaigns_def get_documents_def and_then_def split: if_splits)

lemma list_campaigns_reachable:
  assumes "reachable st"
  shows "list_campaigns e st limit = Inr (map (convert_id e)
        (take (nat (case limit of None \<Rightarrow> 20 | Some n \<Rightarrow> n))
           (filter (matches []) (colls st (ascii ''campaign'')))))"
  using assms by (simp add: list_campaigns_def get_documents_def and_then_def)

lemma list_campaigns_ids:
  assumes "list_campaigns e st limit = Inr items" and "it \<in> set items"
  shows "\<exists>s. map_of it (ascii ''_id'') = Some (PStr s)"
proof -
  from list_campaigns_Inr [OF assms(1)] assms(2)
  obtain d where "it = convert_id e d" by auto
  then show ?thesis by (simp add: convert_id_str)
qed

text \<open>
  C6, as the code has it. On a reachable store \<open>list_campaigns\<close> returns; for a limit
  \<open>N\<close> that is not negative it returns at most \<open>N\<close> records, at most 20 when no limit
  is given, and every returned record has a string under \<open>_id\<close>.
\<close>

theorem list_campaigns_limit:
  "(reachable st \<longrightarrow> (\<exists>items. list_campaigns e st limit = Inr items))
   \<and> (\<forall>items. list_campaigns e st limit = Inr items \<longrightarrow>
        (0 \<le> (case limit of None \<Rightarrow> 20 | Some n \<Rightarrow> n) \<longrightarrow>
             int (length items) \<le> (case limit of None \<Rightarrow> 20 | Some n \<Rightarrow> n))
        \<and> (limit = None \<longrightarrow> length items \<le> 20)
        \<and> (\<forall>it\<in>set items. \<exists>s. map_of it (ascii ''_id'') = Some (PStr s)))"
proof (intro conjI allI impI ballI)
  assume "reachable st"
  then show "\<exists>items. list_campaigns e st limit = Inr items"
    by (simp add: list_campaigns_reachable)
next
  fix items assume a: "list_campaigns e st limit = Inr items"
  from list_campaigns_Inr [OF a]
  have len: "length items \<le> nat (case limit of None \<Rightarrow> 20 | Some n \<Rightarrow> n)" by simp
  { assume "0 \<le> (case limit of None \<Rightarrow> 20 | Some n \<Rightarrow> n)"
    with len show "int (length items) \<le> (case limit of None \<Rightarrow> 20 | Some n \<Rightarrow> n)" by linarith }
  { assume "limit = None"
    with len show "length items \<le> 20" by simp }
  { fix it assume "it \<in> set items"
    with a show "\<exists>s. map_of it (ascii ''_id'') = Some (PStr s)" by (rule list_campaigns_ids) }
qed

lemma campaign_store_reachable: "reachable campaign_store"
  by (simp add: campaign_store_def)

theorem list_campaigns_limit_witness:
  "\<exists>items. list_campaigns sample_env campaign_store (Some 1) = Inr items
      \<and> int (length items) \<le> 1"
proof -
  note t = list_campaigns_limit [of campaign_store sample_env "Some 1"]
  from t [THEN conjunct1, THEN mp, OF campaign_store_reachable]
  obtain items where i: "list_campaigns sample_env campaign_store (Some 1) = Inr items"
    by (elim exE)
  from t [THEN conjunct2, THEN spec, THEN mp, OF i] have "int (length items) \<le> 1"
    by simp
  with i show ?thesis by (intro exI conjI)
qed

text \<open>
  C6 as stated fails for a negative limit, which the route accepts (the parameter is an
  \<open>int\<close> with no lower bound): no list has at most \<open>-1\<close> records.
\<close>

theorem list_campaigns_negative_limit_counterexample:
  "list_campaigns sample_env campaign_store (Some (- 1)) = Inr []
   \<and> \<not> int (length ([] :: pydict list)) \<le> - 1"
  by (simp add: list_campaigns_def get_documents_def and_then_def campaign_store_def)

text \<open>
  C10. Every record that \<open>list_campaigns\<close> returns is a record of the store's answer
  with its \<open>_id\<close> entry rewritten, so it has the key \<open>_id\<close> with a string value. A
  record with no \<open>_id\<close> gets the string "None", the \<open>str\<close> of what \<open>get\<close> returns for
  a missing key, and no other key of a record is changed.
\<close>

theorem list_campaigns_id_key:
  "(\<forall>items. list_campaigns e st limit = Inr items \<longrightarrow>
      (\<exists>docs. get_documents st (ascii ''campaign'') [] (case limit of None \<Rightarrow> 20 | Some n \<Rightarrow> n) = Inr docs
         \<and> items = map (convert_id e) docs)
      \<and> (\<forall>it\<in>set items. \<exists>s. map_of it (ascii ''_id'') = Some (PStr s)))
   \<and> (\<forall>d. map_of d (ascii ''_id'') = None \<longrightarrow>
         map_of (convert_id e d) (ascii ''_id'') = Some (PStr (ascii ''None'')))
   \<and> (\<forall>d k. k \<noteq> ascii ''_id'' \<longrightarrow> map_of (convert_id e d) k = map_of d k)"
proof (intro conjI allI impI ballI)
  fix items assume a: "list_campaigns e st limit = Inr items"
  then show "\<exists>docs. get_documents st (ascii ''campaign'') [] (case limit of None \<Rightarrow> 20 | Some n \<Rightarrow> n) = Inr docs
         \<and> items = map (convert_id e) docs"
    by (cases "get_documents st (ascii ''campaign'') [] (case limit of None \<Rightarrow> 20 | Some n \<Rightarrow> n)")
       (auto simp: list_campaigns_def and_then_def)
  fix it assume "it \<in> set items"
  with a show "\<exists>s. map_of it (ascii ''_id'') = Some (PStr s)" by (rule list_campaigns_ids)
next
  fix d :: pydict assume "map_of d (ascii ''_id'') = None"
  then show "map_of (convert_id e d) (ascii ''_id'') = Some (PStr (ascii ''None''))"
    by (rule convert_id_absent)
next
  fix d :: pydict and k assume "k \<noteq> ascii ''_id''"
  then show "map_of (convert_id e d) k = map_of d k" by (rule convert_id_other)
qed

theorem list_campaigns_id_key_witness:
  "map_of (convert_id sample_env [(ascii ''name'', PStr (ascii ''Imported''))]) (ascii ''_id'')
     = Some (PStr (ascii ''None''))
   \<and> list_campaigns sample_env campaign_store None
     = Inr [[(ascii ''name'', PStr (ascii ''Launch'')), (ascii ''_id'', PStr (ascii ''000000000000000000000001''))],
            [(ascii ''name'', PStr (ascii ''Imported'')), (ascii ''_id'', PStr (ascii ''None''))]]"
proof (intro conjI)
  have n: "map_of [(ascii ''name'', PStr (ascii ''Imported''))] (ascii ''_id'') = None"
    by (simp add: ascii_def)
  from list_campaigns_id_key [of sample_env campaign_store None]
  have "\<forall>d. map_of d (ascii ''_id'') = None \<longrightarrow>
         map_of (convert_id sample_env d) (ascii ''_id'') = Some (PStr (ascii ''None''))"
    by (elim conjE)
  from this [rule_format, OF n]
  show "map_of (convert_id sample_env [(ascii ''name'', PStr (ascii ''Imported''))]) (ascii ''_id'')
     = Some (PStr (ascii ''None''))" .
  have h: "oid_str (Suc 0) = ascii ''000000000000000000000001''"
    unfolding oid_str_def by code_simp
  have "list_campaigns sample_env campaign_store None
     = Inr (map (convert_id sample_env)
         (take (nat 20) (filter (matches []) (colls campaign_store (ascii ''campaign'')))))"
    using list_campaigns_reachable [OF campaign_store_reachable, of sample_env None] by simp
  also have "map (convert_id sample_env)
         (take (nat 20) (filter (matches []) (colls campaign_store (ascii ''campaign''))))
     = [[(ascii ''name'', PStr (ascii ''Launch'')), (ascii ''_id'', PStr (ascii ''000000000000000000000001''))],
        [(ascii ''name'', PStr (ascii ''Imported'')), (ascii ''_id'', PStr (ascii ''None''))]]"
    by (simp add: campaign_store_def matches_def convert_id_def dict_set_def dict_get_def
        py_str_def h ascii_def)
  finally show "list_campaigns sample_env campaign_store None
     = Inr [[(ascii ''name'', PStr (ascii ''Launch'')), (ascii ''_id'', PStr (ascii ''000000000000000000000001''))],
            [(ascii ''name'', PStr (ascii ''Imported'')), (ascii ''_id'', PStr (ascii ''None''))]]" .
qed

lemma length_hex_digits: "length (hex_digits k n) = k"
  by (induction k arbitrary: n) simp_all

lemma oid_str_nonempty: "oid_str n \<noteq> []"
proof
  assume "oid_str n = []"
  then have "length (hex_digits 24 n) = 0" by (simp add: oid_str_def)
  then show False by (simp add: length_hex_digits)
qed

lemma workspace_merge:
  "dict_merge [(ascii ''id'', PStr i)] (Workspace_dump ws)
     = [(ascii ''id'', PStr i), (ascii ''name'', PStr (name ws)),
        (ascii ''owner_email'', PStr (owner_email ws))]"
  by (simp add: dict_merge_def dict_set_def Workspace_dump_def ascii_def)

lemma create_workspace_reachable:
  assumes "reachable st"
  shows "create_workspace st ws =
    (Inr [(ascii ''id'', PStr (oid_str (next_oid st))), (ascii ''name'', PStr (name ws)),
          (ascii ''owner_email'', PStr (owner_email ws))],
     st\<lparr>next_oid := Suc (next_oid st),
        colls := (colls st)
          (ascii ''workspace'' := colls st (ascii ''workspace'')
             @ [dict_set (Workspace_dump ws) (ascii ''_id'') (PObjectId (next_oid st))])\<rparr>)"
  using assms by (simp add: create_workspace_def create_document_def workspace_merge)

lemma create_workspace_unreachable:
  assumes "\<not> reachable st"
  shows "create_workspace st ws = (Inl StorageUnavailable, st)"
  using assms by (simp add: create_workspace_def create_document_def)

lemma field_str_Some:
  assumes "field_str d k = Some s"
  shows "map_of d k = Some (PStr s)"
proof (cases "map_of d k")
  case None
  with assms show ?thesis by (simp add: field_str_def)
next
  case (Some v)
  with assms show ?thesis by (cases v) (simp_all add: field_str_def)
qed

lemma field_email_Some:
  assumes "field_email e d k = Some m'"
  shows "\<exists>m. map_of d k = Some (PStr m) \<and> validate_email e m = Some m'"
proof (cases "map_of d k")
  case None
  with assms show ?thesis by (simp add: field_email_def)
next
  case (Some v)
  with assms show ?thesis by (cases v) (simp_all add: field_email_def)
qed

lemma Workspace_validate_Some:
  assumes "Workspace_validate e payload = Some ws"
  shows "\<exists>d. payload = PDict d
    \<and> field_str d (ascii ''name'') = Some (name ws)
    \<and> field_email e d (ascii ''owner_email'') = Some (owner_email ws)"
proof (cases payload)
  case (PDict d)
  with assms show ?thesis
    by (cases "field_str d (ascii ''name'')"; cases "field_email e d (ascii ''owner_email'')")
       (auto simp: Workspace_validate_def)
qed (use assms in \<open>simp_all add: Workspace_validate_def\<close>)

text \<open>
  C7, as the code has it. For every body that the Workspace schema accepts, on a
  reachable store, \<open>POST /workspaces\<close> returns the object with the keys id, name and
  owner_email: the id is a non-empty string, the name is the submitted name, and the
  owner_email is what the address check returns for the submitted address, its
  normalised form (the submitted address itself whenever the check returns it as it is).
\<close>

theorem post_workspaces_returns:
  assumes "Workspace_validate e payload = Some ws" and "reachable st"
  shows "\<exists>d i st' m. payload = PDict d
      \<and> post_workspaces e st payload
          = (Returned [(ascii ''id'', PStr i), (ascii ''name'', PStr (name ws)),
                       (ascii ''owner_email'', PStr (owner_email ws))], st')
      \<and> i \<noteq> []
      \<and> map_of d (ascii ''name'') = Some (PStr (name ws))
      \<and> map_of d (ascii ''owner_email'') = Some (PStr m)
      \<and> validate_email e m = Some (owner_email ws)"
proof -
  from Workspace_validate_Some [OF assms(1)]
  obtain d where p: "payload = PDict d"
    and n: "field_str d (ascii ''name'') = Some (name ws)"
    and o: "field_email e d (ascii ''owner_email'') = Some (owner_email ws)"
    by (elim exE conjE)
  from field_email_Some [OF o]
  obtain m where m: "map_of d (ascii ''owner_email'') = Some (PStr m)"
    and v: "validate_email e m = Some (owner_email ws)"
    by (elim exE conjE)
  have r: "post_workspaces e st payload
      = (Returned [(ascii ''id'', PStr (oid_str (next_oid st))), (ascii ''name'', PStr (name ws)),
                   (ascii ''owner_email'', PStr (owner_email ws))],
         st\<lparr>next_oid := Suc (next_oid st),
            colls := (colls st)
              (ascii ''workspace'' := colls st (ascii ''workspace'')
                 @ [dict_set (Workspace_dump ws) (ascii ''_id'') (PObjectId (next_oid st))])\<rparr>)"
    by (simp add: post_workspaces_def assms(1) handled_def create_workspace_reachable [OF assms(2)])
  from p r oid_str_nonempty [of "next_oid st"] field_str_Some [OF n] m v
  show ?thesis by (intro exI conjI)
qed

theorem post_workspaces_returns_witness:
  "\<exists>i st'. post_workspaces sample_env sample_store
          (PDict [(ascii ''name'', PStr (ascii ''Acme'')), (ascii ''owner_email'', PStr (ascii ''a@b.co''))])
        = (Returned [(ascii ''id'', PStr i), (ascii ''name'', PStr (ascii ''Acme'')),
                     (ascii ''owner_email'', PStr (ascii ''a@b.co''))], st')
      \<and> i \<noteq> []"
proof -
  have v: "Workspace_validate sample_env
          (PDict [(ascii ''name'', PStr (ascii ''Acme'')), (ascii ''owner_email'', PStr (ascii ''a@b.co''))])
      = Some \<lparr>name = ascii ''Acme'', owner_email = ascii ''a@b.co''\<rparr>"
    by (simp add: Workspace_validate_def field_str_def field_email_def sample_env_def ascii_def)
  have r: "reachable sample_store" by (simp add: sample_store_def)
  from post_workspaces_returns [OF v r] show ?thesis by auto
qed

text \<open>
  C7 as stated fails for an address that the check normalises: submitted as
  \<open>Bob@EXAMPLE.COM\<close>, it comes back as \<open>Bob@example.com\<close>.
\<close>

theorem post_workspaces_normalised_counterexample:
  "map_of [(ascii ''name'', PStr (ascii ''Acme'')), (ascii ''owner_email'', PStr (ascii ''Bob@EXAMPLE.COM''))]
       (ascii ''owner_email'')
     = Some (PStr (ascii ''Bob@EXAMPLE.COM''))
   \<and> fst (post_workspaces normalising_env sample_store mixed_case_payload)
     = Returned [(ascii ''id'', PStr (ascii ''000000000000000000000000'')),
                 (ascii ''name'', PStr (ascii ''Acme'')),
                 (ascii ''owner_email'', PStr (ascii ''Bob@example.com''))]
   \<and> ascii ''Bob@example.com'' \<noteq> ascii ''Bob@EXAMPLE.COM''"
proof (intro conjI)
  show "map_of [(ascii ''name'', PStr (ascii ''Acme'')), (ascii ''owner_email'', PStr (ascii ''Bob@EXAMPLE.COM''))]
       (ascii ''owner_email'')
     = Some (PStr (ascii ''Bob@EXAMPLE.COM''))"
    by (simp add: ascii_def)
  show "ascii ''Bob@example.com'' \<noteq> ascii ''Bob@EXAMPLE.COM''"
    by (simp add: ascii_def)
  have v: "Workspace_validate normalising_env mixed_case_payload
      = Some \<lparr>name = ascii ''Acme'', owner_email = ascii ''Bob@example.com''\<rparr>"
    by (simp add: Workspace_validate_def mixed_case_payload_def field_str_def field_email_def
        normalising_env_def ascii_def)
  have r: "reachable sample_store" by (simp add: sample_store_def)
  have h: "oid_str (next_oid sample_store) = ascii ''000000000000000000000000''"
    unfolding oid_str_def sample_store_def by code_simp
  show "fst (post_workspaces normalising_env sample_store mixed_case_payload)
     = Returned [(ascii ''id'', PStr (ascii ''000000000000000000000000'')),
                 (ascii ''name'', PStr (ascii ''Acme'')),
                 (ascii ''owner_email'', PStr (ascii ''Bob@example.com''))]"
    by (simp add: post_workspaces_def v handled_def create_workspace_reachable [OF r] h)
qed

lemma field_email_invalid:
  assumes "\<forall>s. map_of d k = Some (PStr s) \<longrightarrow> validate_email e s = None"
  shows "field_email e d k = None"
using assms by (auto simp: field_email_def split: option.splits pyval.splits)

text \<open>
  C8. A Workspace body whose owner_email, or a Prospect body whose email, is absent, not
  a string, or a string the address check refuses, is answered with the validation
  error, a client error (status 422), and the store is left as it was: the handler, and
  with it the store's \<open>create\<close>, is never called.
\<close>

theorem invalid_email_rejected:
  "((\<forall>s. map_of d (ascii ''owner_email'') = Some (PStr s) \<longrightarrow> validate_email e s = None) \<longrightarrow>
       post_workspaces e st (PDict d) = (ValidationError, st))
   \<and> ((\<forall>s. map_of d (ascii ''email'') = Some (PStr s) \<longrightarrow> validate_email e s = None) \<longrightarrow>
       post_prospects e st (PDict d) = (ValidationError, st))
   \<and> 400 \<le> reply_status ValidationError \<and> reply_status ValidationError < 500"
proof (intro conjI impI)
  assume "\<forall>s. map_of d (ascii ''owner_email'') = Some (PStr s) \<longrightarrow> validate_email e s = None"
  then have "field_email e d (ascii ''owner_email'') = None" by (rule field_email_invalid)
  then have "Workspace_validate e (PDict d) = None"
    by (simp add: Workspace_validate_def split: option.splits)
  then show "post_workspaces e st (PDict d) = (ValidationError, st)"
    by (simp add: post_workspaces_def)
next
  assume "\<forall>s. map_of d (ascii ''email'') = Some (PStr s) \<longrightarrow> validate_email e s = None"
  then have "field_email e d (ascii ''email'') = None" by (rule field_email_invalid)
  then have "Prospect_validate e (PDict d) = None"
    by (simp add: Prospect_validate_def)
  then show "post_prospects e st (PDict d) = (ValidationError, st)"
    by (simp add: post_prospects_def)
qed (simp_all add: reply_status_def)

theorem invalid_email_rejected_witness:
  "post_workspaces sample_env sample_store bad_workspace_body = (ValidationError, sample_store)
   \<and> post_prospects sample_env sample_store bad_prospect_body = (ValidationError, sample_store)"
proof (intro conjI)
  let ?w = "[(ascii ''name'', PStr (ascii ''Acme'')), (ascii ''owner_email'', PStr (ascii ''not-an-email''))]"
  let ?p = "[(ascii ''email'', PStr (ascii ''not-an-email'')), (ascii ''company'', PStr (ascii ''Acme''))]"
  have w: "\<forall>s. map_of ?w (ascii ''owner_email'') = Some (PStr s) \<longrightarrow> validate_email sample_env s = None"
    by (simp add: ascii_def sample_env_def)
  have p: "\<forall>s. map_of ?p (ascii ''email'') = Some (PStr s) \<longrightarrow> validate_email sample_env s = None"
    by (simp add: ascii_def sample_env_def)
  from invalid_email_rejected [of ?w sample_env sample_store, THEN conjunct1, THEN mp, OF w]
  show "post_workspaces sample_env sample_store bad_workspace_body = (ValidationError, sample_store)"
    by (simp only: bad_workspace_body_def)
  from invalid_email_rejected [of ?p sample_env sample_store, THEN conjunct2, THEN conjunct1, THEN mp, OF p]
  show "post_prospects sample_env sample_store bad_prospect_body = (ValidationError, sample_store)"
    by (simp only: bad_prospect_body_def)
qed

text \<open>
  For contrast, a body with an address the check accepts reaches the handler and is
  written to the store.
\<close>

lemma post_workspaces_valid_example:
  "fst (post_workspaces sample_env sample_store
          (PDict [(ascii ''name'', PStr (ascii ''Acme'')), (ascii ''owner_email'', PStr (ascii ''a@b.co''))]))
     = Returned [(ascii ''id'', PStr (oid_str 0)), (ascii ''name'', PStr (ascii ''Acme'')),
                 (ascii ''owner_email'', PStr (ascii ''a@b.co''))]
   \<and> colls (snd (post_workspaces sample_env sample_store
          (PDict [(ascii ''name'', PStr (ascii ''Acme'')), (ascii ''owner_email'', PStr (ascii ''a@b.co''))])))
        (ascii ''workspace'')
     = [[(ascii ''name'', PStr (ascii ''Acme'')), (ascii ''owner_email'', PStr (ascii ''a@b.co'')),
         (ascii ''_id'', PObjectId 0)]]"
proof -
  have v: "Workspace_validate sample_env
          (PDict [(ascii ''name'', PStr (ascii ''Acme'')), (ascii ''owner_email'', PStr (ascii ''a@b.co''))])
      = Some \<lparr>name = ascii ''Acme'', owner_email = ascii ''a@b.co''\<rparr>"
    by (simp add: Workspace_validate_def field_str_def field_email_def sample_env_def ascii_def)
  have r: "reachable sample_store" by (simp add: sample_store_def)
  show ?thesis
    unfolding post_workspaces_def v
    by (simp add: handled_def create_workspace_reachable [OF r])
       (simp add: sample_store_def Workspace_dump_def dict_set_def ascii_def)
qed

end
